theory Spec2Isabelle
  imports Main "HOL-Library.Multiset"
begin

section \<open>Data model (backend/prisma/schema.prisma)\<close>

text \<open>
  A \<open>DateTime\<close> is a number of milliseconds; a \<open>String?\<close> column is a \<open>string option\<close>.
  The three models the backend reads or writes are rows of three tables. Field names carry
  a prefix because \<open>id\<close>, \<open>createdAt\<close> and \<open>updatedAt\<close> occur in every model.
\<close>

type_synonym datetime = int

record user =
  u_id :: string
  u_name :: "string option"
  u_email :: string
  u_emailVerified :: bool
  u_createdAt :: datetime
  u_updatedAt :: datetime
  u_isActive :: bool
  u_image :: "string option"

record session =
  s_id :: string
  s_expiresAt :: datetime
  s_token :: string
  s_userId :: string
  s_createdAt :: datetime
  s_updatedAt :: datetime
  s_ipAddress :: "string option"
  s_userAgent :: "string option"

record account =
  a_id :: string
  a_userId :: string
  a_password :: "string option"
  a_accountId :: string
  a_providerId :: string
  a_createdAt :: datetime
  a_updatedAt :: datetime

record database =
  users :: "user list"
  sessions :: "session list"
  accounts :: "account list"

text \<open>
  The singleton client of \<open>lib/prisma.ts\<close> talks to a database that is either out of reach
  or holds the three tables.
\<close>

datatype store = Unreachable | Connected database

section \<open>The ORM client, as far as the backend calls it\<close>

text \<open>
  The client belongs to an external library. Its operations are written here with the
  behaviour the schema fixes: \<open>@id\<close> and \<open>@unique\<close> are unique constraints (error code
  P2002 names the violated field), an update or delete of a row that does not exist is error
  P2025, \<open>@default\<close> fills an absent field on create, \<open>@updatedAt\<close> stamps the row on every
  write that sets a field, \<open>onDelete: Cascade\<close> removes the sessions and accounts of a deleted user. A store
  out of reach answers every call with P1001.
\<close>

datatype prisma_error = P1001 | P2002 "string list" | P2025

datatype sort_order = asc | desc

record findMany_args =
  where_isActive :: "bool option"
  orderBy_createdAt :: "sort_order option"

record user_create_input =
  ci_name :: "string option"
  ci_email :: string
  ci_emailVerified :: "bool option"
  ci_isActive :: "bool option"

record user_update_input =
  ui_name :: "string option"
  ui_email :: "string option"
  ui_emailVerified :: "bool option"
  ui_isActive :: "bool option"

definition prisma_user_findUnique_id :: "store \<Rightarrow> string \<Rightarrow> prisma_error + user option" where
  "prisma_user_findUnique_id st i =
     (case st of
        Unreachable \<Rightarrow> Inl P1001
      | Connected db \<Rightarrow> Inr (find (\<lambda>u. u_id u = i) (users db)))"

definition prisma_user_findUnique_email :: "store \<Rightarrow> string \<Rightarrow> prisma_error + user option" where
  "prisma_user_findUnique_email st e =
     (case st of
        Unreachable \<Rightarrow> Inl P1001
      | Connected db \<Rightarrow> Inr (find (\<lambda>u. u_email u = e) (users db)))"

text \<open>
  \<open>findMany\<close> keeps the rows the \<open>where\<close> clause selects and sorts them by \<open>createdAt\<close>.
  The database leaves the order of rows with equal keys open; the sort used here is stable.
\<close>

definition prisma_user_findMany :: "store \<Rightarrow> findMany_args \<Rightarrow> prisma_error + user list" where
  "prisma_user_findMany st args =
     (case st of
        Unreachable \<Rightarrow> Inl P1001
      | Connected db \<Rightarrow>
          (let selected =
                 (case where_isActive args of
                    None \<Rightarrow> users db
                  | Some b \<Rightarrow> filter (\<lambda>u. u_isActive u = b) (users db))
           in Inr (case orderBy_createdAt args of
                     None \<Rightarrow> selected
                   | Some asc \<Rightarrow> sort_key u_createdAt selected
                   | Some desc \<Rightarrow> sort_key (\<lambda>u. - u_createdAt u) selected)))"

text \<open>
  \<open>create\<close> takes the clock and the identifier that \<open>cuid()\<close> generates from the
  environment.
\<close>

definition prisma_user_create ::
  "store \<Rightarrow> datetime \<Rightarrow> string \<Rightarrow> user_create_input \<Rightarrow> prisma_error + (database \<times> user)" where
  "prisma_user_create st now nid data =
     (case st of
        Unreachable \<Rightarrow> Inl P1001
      | Connected db \<Rightarrow>
          if list_ex (\<lambda>u. u_id u = nid) (users db) then Inl (P2002 [''id''])
          else if list_ex (\<lambda>u. u_email u = ci_email data) (users db) then Inl (P2002 [''email''])
          else
            (let row = \<lparr> u_id = nid,
                         u_name = ci_name data,
                         u_email = ci_email data,
                         u_emailVerified = (case ci_emailVerified data of None \<Rightarrow> False | Some b \<Rightarrow> b),
                         u_createdAt = now,
                         u_updatedAt = now,
                         u_isActive = (case ci_isActive data of None \<Rightarrow> True | Some b \<Rightarrow> b),
                         u_image = None \<rparr>
             in Inr (db\<lparr>users := users db @ [row]\<rparr>, row)))"

text \<open>
  A field that is absent from \<open>data\<close> keeps the value of the row, and \<open>data\<close> without
  any field writes nothing, so that the row keeps its \<open>updatedAt\<close> too. The unique
  constraint on \<open>email\<close> can only be broken by an update that writes \<open>email\<close>.
\<close>

definition no_fields :: "user_update_input \<Rightarrow> bool" where
  "no_fields data =
     (ui_name data = None \<and> ui_email data = None \<and> ui_emailVerified data = None
      \<and> ui_isActive data = None)"

definition apply_update :: "datetime \<Rightarrow> user_update_input \<Rightarrow> user \<Rightarrow> user" where
  "apply_update now data u =
     (if no_fields data then u
      else
        u\<lparr> u_name := (case ui_name data of None \<Rightarrow> u_name u | Some n \<Rightarrow> Some n),
           u_email := (case ui_email data of None \<Rightarrow> u_email u | Some e \<Rightarrow> e),
           u_emailVerified :=
             (case ui_emailVerified data of None \<Rightarrow> u_emailVerified u | Some b \<Rightarrow> b),
           u_isActive := (case ui_isActive data of None \<Rightarrow> u_isActive u | Some b \<Rightarrow> b),
           u_updatedAt := now \<rparr>)"

definition prisma_user_update ::
  "store \<Rightarrow> datetime \<Rightarrow> string \<Rightarrow> user_update_input \<Rightarrow> prisma_error + (database \<times> user)" where
  "prisma_user_update st now i data =
     (case st of
        Unreachable \<Rightarrow> Inl P1001
      | Connected db \<Rightarrow>
          (case find (\<lambda>u. u_id u = i) (users db) of
             None \<Rightarrow> Inl P2025
           | Some u \<Rightarrow>
               (let row = apply_update now data u in
                if (case ui_email data of
                      None \<Rightarrow> False
                    | Some e \<Rightarrow> list_ex (\<lambda>v. u_id v \<noteq> i \<and> u_email v = e) (users db))
                then Inl (P2002 [''email''])
                else Inr (db\<lparr>users := map (\<lambda>v. if u_id v = i then apply_update now data v else v)
                                           (users db)\<rparr>,
                          row))))"

definition prisma_user_delete :: "store \<Rightarrow> string \<Rightarrow> prisma_error + (database \<times> user)" where
  "prisma_user_delete st i =
     (case st of
        Unreachable \<Rightarrow> Inl P1001
      | Connected db \<Rightarrow>
          (case find (\<lambda>u. u_id u = i) (users db) of
             None \<Rightarrow> Inl P2025
           | Some u \<Rightarrow>
               Inr (\<lparr> users = filter (\<lambda>v. u_id v \<noteq> i) (users db),
                      sessions = filter (\<lambda>s. s_userId s \<noteq> i) (sessions db),
                      accounts = filter (\<lambda>a. a_userId a \<noteq> i) (accounts db) \<rparr>,
                    u)))"

section \<open>Exceptions and the response the caller sees\<close>

text \<open>
  What a handler, a guard or a middleware can throw or hand on: the framework's HTTP
  exceptions, an error of the ORM client, or any other error object, of which the framework
  reads the \<open>statusCode\<close> property, if it has one, and the message.
\<close>

datatype exception =
    UnauthorizedException string
  | NotFoundException string
  | ConflictException string
  | PrismaClientError prisma_error
  | Error "nat option" string

record error_response =
  statusCode :: nat
  message :: string

text \<open>
  \<open>main.ts\<close> installs no exception filter, so the framework's built-in one answers: an HTTP
  exception with its own status and message, an error object that carries a status code
  with that code and its message, anything else with status 500 and a fixed message. The
  errors of the ORM client carry a \<open>code\<close>, not a status code.
\<close>

fun exception_response :: "exception \<Rightarrow> error_response" where
  "exception_response (UnauthorizedException m) = \<lparr> statusCode = 401, message = m \<rparr>"
| "exception_response (NotFoundException m) = \<lparr> statusCode = 404, message = m \<rparr>"
| "exception_response (ConflictException m) = \<lparr> statusCode = 409, message = m \<rparr>"
| "exception_response (PrismaClientError e) =
     \<lparr> statusCode = 500, message = ''Internal server error'' \<rparr>"
| "exception_response (Error (Some status) m) = \<lparr> statusCode = status, message = m \<rparr>"
| "exception_response (Error None m) =
     \<lparr> statusCode = 500, message = ''Internal server error'' \<rparr>"

text \<open>An awaited client call that rejects throws out of the service method unchanged.\<close>

definition await :: "prisma_error + 'a \<Rightarrow> exception + 'a" where
  "await r = (case r of Inl e \<Rightarrow> Inl (PrismaClientError e) | Inr v \<Rightarrow> Inr v)"

section \<open>UsersService (modules/users/services/users.service.ts)\<close>

text \<open>\<open>CreateUserDto\<close>: \<open>email\<close> is required, the other three fields are optional.\<close>

record CreateUserDto =
  dto_name :: "string option"
  dto_email :: string
  dto_emailVerified :: "bool option"
  dto_isActive :: "bool option"

text \<open>
  Modelled from the spec: the file \<open>dto/update-user.dto.ts\<close> that declares \<open>UpdateUserDto\<close>.
  The spec gives update "partial fields" of a user; the fields are those a caller may set on
  create, each optional. The service hands the object to the client as it is, so the type
  is the client's update input.
\<close>

type_synonym UpdateUserDto = user_update_input

text \<open>
  \<open>create\<close> spreads the DTO into the data object and then writes the two keys
  \<open>emailVerified\<close> and \<open>isActive\<close>; a later key replaces an earlier one.
\<close>

definition create ::
  "store \<Rightarrow> datetime \<Rightarrow> string \<Rightarrow> CreateUserDto \<Rightarrow> exception + (database \<times> user)" where
  "create st now nid createUserDto =
     (let spread = \<lparr> ci_name = dto_name createUserDto,
                      ci_email = dto_email createUserDto,
                      ci_emailVerified = dto_emailVerified createUserDto,
                      ci_isActive = dto_isActive createUserDto \<rparr>
      in await (prisma_user_create st now nid
                  (spread\<lparr> ci_emailVerified := Some False, ci_isActive := Some True \<rparr>)))"

definition findAll :: "store \<Rightarrow> exception + user list" where
  "findAll st =
     await (prisma_user_findMany st \<lparr> where_isActive = Some True, orderBy_createdAt = Some desc \<rparr>)"

definition findOne :: "store \<Rightarrow> string \<Rightarrow> exception + user option" where
  "findOne st i = await (prisma_user_findUnique_id st i)"

definition findByEmail :: "store \<Rightarrow> string \<Rightarrow> exception + user option" where
  "findByEmail st email = await (prisma_user_findUnique_email st email)"

definition update ::
  "store \<Rightarrow> datetime \<Rightarrow> string \<Rightarrow> UpdateUserDto \<Rightarrow> exception + (database \<times> user)" where
  "update st now i updateUserDto = await (prisma_user_update st now i updateUserDto)"

text \<open>\<open>remove\<close> returns nothing; the value here is the database after the call.\<close>

definition remove :: "store \<Rightarrow> datetime \<Rightarrow> string \<Rightarrow> exception + database" where
  "remove st now i =
     (case await (prisma_user_update st now i
                    \<lparr> ui_name = None, ui_email = None, ui_emailVerified = None,
                      ui_isActive = Some False \<rparr>) of
        Inl e \<Rightarrow> Inl e
      | Inr (db, _) \<Rightarrow> Inr db)"

definition hardDelete :: "store \<Rightarrow> string \<Rightarrow> exception + database" where
  "hardDelete st i =
     (case await (prisma_user_delete st i) of
        Inl e \<Rightarrow> Inl e
      | Inr (db, _) \<Rightarrow> Inr db)"

section \<open>The authentication library, as far as the guard calls it\<close>

text \<open>
  \<open>auth.api.getSession\<close> receives the request headers and answers \<open>null\<close> or an object
  with the two properties \<open>session\<close> and \<open>user\<close>; the call may also throw. The library is
  external, so the guard takes the call as a parameter.
\<close>

record session_result =
  sr_session :: "session option"
  sr_user :: "user option"

type_synonym getSession = "(string \<times> string) list \<Rightarrow> exception + session_result option"

text \<open>
  The library answers \<open>null\<close> or an object that has both a session and a user. What the
  guard relies on is less: an answer without a user is also without a session.
\<close>

definition paired :: "session_result option \<Rightarrow> bool" where
  "paired answer =
     (case answer of
        None \<Rightarrow> True
      | Some result \<Rightarrow> (sr_user result = None \<longrightarrow> sr_session result = None))"

text \<open>
  The request object: what the middleware and the guard read (\<open>raw\<close> is the body as it
  arrived, unread), the parsed body a parser attaches, and the two properties the guard
  attaches.
\<close>

record request =
  headers :: "(string \<times> string) list"
  baseUrl :: "string option"
  url :: "string option"
  raw :: string
  body :: "(string \<times> string) list option"
  req_user :: "user option"
  req_session :: "session option"

section \<open>AuthGuard (modules/auth/guards/auth.guard.ts)\<close>

text \<open>The body of the \<open>try\<close> block: each \<open>throw\<close> and each rejected call is an \<open>Inl\<close>.\<close>

definition canActivate_try :: "getSession \<Rightarrow> store \<Rightarrow> request \<Rightarrow> exception + request" where
  "canActivate_try getSession st request =
     (case getSession (headers request) of
        Inl e \<Rightarrow> Inl e
      | Inr None \<Rightarrow> Inl (UnauthorizedException ''Invalid or expired session'')
      | Inr (Some result) \<Rightarrow>
          (case sr_session result of
             None \<Rightarrow> Inl (UnauthorizedException ''Invalid or expired session'')
           | Some s \<Rightarrow>
               (case await (prisma_user_findUnique_id st (s_userId s)) of
                  Inl e \<Rightarrow> Inl e
                | Inr None \<Rightarrow> Inl (UnauthorizedException ''User not found or inactive'')
                | Inr (Some u) \<Rightarrow>
                    if \<not> u_isActive u
                    then Inl (UnauthorizedException ''User not found or inactive'')
                    else Inr (request\<lparr> req_user := sr_user result,
                                       req_session := Some s \<rparr>))))"

text \<open>The \<open>catch\<close> clause replaces whatever was thrown; \<open>Inr\<close> is the return of \<open>true\<close>.\<close>

definition canActivate :: "getSession \<Rightarrow> store \<Rightarrow> request \<Rightarrow> exception + request" where
  "canActivate getSession st request =
     (case canActivate_try getSession st request of
        Inl error \<Rightarrow> Inl (UnauthorizedException ''Authentication failed'')
      | Inr request' \<Rightarrow> Inr request')"

section \<open>Configuration (config/configuration.ts)\<close>

text \<open>
  The part of the configuration that decides which routes exist: the two \<open>swagger\<close>
  entries, read from the environment. An unset or empty \<open>SWAGGER_PATH\<close> gives \<open>api\<close>;
  the documentation is on unless \<open>SWAGGER_ENABLED\<close> is the text \<open>false\<close>.
\<close>

record swagger_config =
  sw_enabled :: bool
  sw_path :: string

definition configuration :: "(string \<rightharpoonup> string) \<Rightarrow> swagger_config" where
  "configuration env =
     \<lparr> sw_enabled = (env ''SWAGGER_ENABLED'' \<noteq> Some ''false''),
       sw_path = (case env ''SWAGGER_PATH'' of
                    None \<Rightarrow> ''api''
                  | Some p \<Rightarrow> if p = [] then ''api'' else p) \<rparr>"

section \<open>Controllers and the routes they declare\<close>

text \<open>
  A route is what the decorators of a controller method say: the HTTP method, the path below
  the global prefix (controller path, then method path), the guards of \<open>@UseGuards\<close>, the
  method. \<open>main.ts\<close> and the modules register no global guard.
\<close>

datatype http_method = GET | POST | PATCH | DELETE

datatype segment = Lit string | Param string

datatype guard = AuthGuard

datatype handler =
    AppController_getHello
  | AppController_getHealth
  | UsersController_create
  | UsersController_findAll
  | UsersController_getCurrentUser
  | UsersController_findOne
  | UsersController_update
  | UsersController_remove
  | SwaggerModule_ui
  | SwaggerModule_init
  | SwaggerModule_json
  | SwaggerModule_yaml

record route =
  r_method :: http_method
  r_path :: "segment list"
  r_guards :: "guard list"
  r_handler :: handler

definition AppController :: "route list" where
  "AppController =
     [ \<lparr> r_method = GET, r_path = [], r_guards = [], r_handler = AppController_getHello \<rparr>,
       \<lparr> r_method = GET, r_path = [Lit ''health''], r_guards = [],
         r_handler = AppController_getHealth \<rparr> ]"

definition UsersController :: "route list" where
  "UsersController =
     [ \<lparr> r_method = POST, r_path = [Lit ''users''], r_guards = [],
         r_handler = UsersController_create \<rparr>,
       \<lparr> r_method = GET, r_path = [Lit ''users''], r_guards = [AuthGuard],
         r_handler = UsersController_findAll \<rparr>,
       \<lparr> r_method = GET, r_path = [Lit ''users'', Lit ''me''], r_guards = [AuthGuard],
         r_handler = UsersController_getCurrentUser \<rparr>,
       \<lparr> r_method = GET, r_path = [Lit ''users'', Param ''id''], r_guards = [AuthGuard],
         r_handler = UsersController_findOne \<rparr>,
       \<lparr> r_method = PATCH, r_path = [Lit ''users'', Param ''id''], r_guards = [AuthGuard],
         r_handler = UsersController_update \<rparr>,
       \<lparr> r_method = DELETE, r_path = [Lit ''users'', Param ''id''], r_guards = [AuthGuard],
         r_handler = UsersController_remove \<rparr> ]"

definition routes :: "route list" where
  "routes = AppController @ UsersController"

section \<open>Bootstrap (main.ts)\<close>

text \<open>
  \<open>bootstrap\<close> sets the global prefix \<open>api\<close> and, when the documentation is enabled,
  calls \<open>SwaggerModule.setup\<close> with the configured path. That call puts the routes of the
  documentation on the HTTP adapter at once: the page at the path, its script below the
  path, and the document as JSON and as YAML beside the path. The routes of the controllers
  follow when the application starts to listen, each below the global prefix. The static
  files of the page are served by a middleware that passes on every request for which the
  page's package has no file; they are not routes here.
\<close>

definition globalPrefix :: string where
  "globalPrefix = ''api''"

text \<open>A path as the list of its segments: split at \<open>/\<close>, empty segments dropped.\<close>

fun split_slash :: "string \<Rightarrow> string \<Rightarrow> string list" where
  "split_slash acc [] = (if acc = [] then [] else [acc])"
| "split_slash acc (c # cs) =
     (if c = CHR ''/'' then (if acc = [] then split_slash [] cs else acc # split_slash [] cs)
      else split_slash (acc @ [c]) cs)"

definition segments :: "string \<Rightarrow> string list" where
  "segments p = split_slash [] p"

definition beside :: "string list \<Rightarrow> string \<Rightarrow> string list" where
  "beside p suffix = (if p = [] then [suffix] else butlast p @ [last p @ suffix])"

definition swagger_routes :: "swagger_config \<Rightarrow> route list" where
  "swagger_routes cfg =
     (if sw_enabled cfg
      then (let p = segments (sw_path cfg) in
            [ \<lparr> r_method = GET, r_path = map Lit p, r_guards = [],
                r_handler = SwaggerModule_ui \<rparr>,
              \<lparr> r_method = GET, r_path = map Lit (p @ [''swagger-ui-init.js'']), r_guards = [],
                r_handler = SwaggerModule_init \<rparr>,
              \<lparr> r_method = GET, r_path = map Lit (beside p ''-json''), r_guards = [],
                r_handler = SwaggerModule_json \<rparr>,
              \<lparr> r_method = GET, r_path = map Lit (beside p ''-yaml''), r_guards = [],
                r_handler = SwaggerModule_yaml \<rparr> ])
      else [])"

definition registered :: "swagger_config \<Rightarrow> route list" where
  "registered cfg =
     swagger_routes cfg @ map (\<lambda>r. r\<lparr> r_path := Lit globalPrefix # r_path r \<rparr>) routes"

text \<open>
  The framework's part: a request that the middleware has handed on goes to the first
  registered route whose method and path match, where the router compares the fixed
  segments of a path without regard to case; the guards of the route run in order, and the
  rest of the route runs only when every guard has returned. That rest, the validation pipe
  and then the method, is a parameter \<open>run\<close>.
\<close>

definition lower_char :: "char \<Rightarrow> char" where
  "lower_char c =
     (case map_of (zip ''ABCDEFGHIJKLMNOPQRSTUVWXYZ'' ''abcdefghijklmnopqrstuvwxyz'') c of
        None \<Rightarrow> c
      | Some d \<Rightarrow> d)"

definition toLowerCase :: "string \<Rightarrow> string" where
  "toLowerCase s = map lower_char s"

fun matches :: "segment list \<Rightarrow> string list \<Rightarrow> bool" where
  "matches [] [] = True"
| "matches (Lit l # ps) (x # xs) = (toLowerCase l = toLowerCase x \<and> matches ps xs)"
| "matches (Param n # ps) (x # xs) = matches ps xs"
| "matches _ _ = False"

definition resolve :: "swagger_config \<Rightarrow> http_method \<Rightarrow> string list \<Rightarrow> route option" where
  "resolve cfg m path =
     find (\<lambda>r. r_method r = m \<and> matches (r_path r) path) (registered cfg)"

fun run_guards :: "getSession \<Rightarrow> store \<Rightarrow> guard list \<Rightarrow> request \<Rightarrow> exception + request" where
  "run_guards getSession st [] request = Inr request"
| "run_guards getSession st (AuthGuard # gs) request =
     (case canActivate getSession st request of
        Inl e \<Rightarrow> Inl e
      | Inr request' \<Rightarrow> run_guards getSession st gs request')"

definition invoke ::
  "getSession \<Rightarrow> store \<Rightarrow> (handler \<Rightarrow> request \<Rightarrow> 'r) \<Rightarrow> route \<Rightarrow> request \<Rightarrow> exception + 'r" where
  "invoke getSession st run r request =
     (case run_guards getSession st (r_guards r) request of
        Inl e \<Rightarrow> Inl e
      | Inr request' \<Rightarrow> Inr (run (r_handler r) request'))"

definition serve ::
  "swagger_config \<Rightarrow> getSession \<Rightarrow> store \<Rightarrow> (handler \<Rightarrow> request \<Rightarrow> 'r) \<Rightarrow> http_method
     \<Rightarrow> string list \<Rightarrow> request \<Rightarrow> exception + 'r" where
  "serve cfg getSession st run m path request =
     (case resolve cfg m path of
        None \<Rightarrow> Inl (NotFoundException ''Not Found'')
      | Some r \<Rightarrow> invoke getSession st run r request)"

definition requires_session :: "swagger_config \<Rightarrow> http_method \<Rightarrow> string list \<Rightarrow> bool" where
  "requires_session cfg m path =
     (case resolve cfg m path of None \<Rightarrow> False | Some r \<Rightarrow> AuthGuard \<in> set (r_guards r))"

section \<open>RawBodyMiddleware (common/middleware/raw-body.middleware.ts)\<close>

text \<open>
  \<open>express.json\<close> and \<open>express.urlencoded\<close> build a parser from their options; a parser
  either hands the request on, with the parsed body attached, or hands on an error. Both
  come from an external library and are parameters. The result of the middleware records
  which parsers were called, in order, and what reached \<open>next\<close>.
\<close>

record parser_options =
  opt_limit :: string
  opt_extended :: "bool option"

type_synonym body_parser = "request \<Rightarrow> exception + request"

record express =
  json :: "parser_options \<Rightarrow> body_parser"
  urlencoded :: "parser_options \<Rightarrow> body_parser"

datatype parser_call = json_call parser_options | urlencoded_call parser_options

record middleware_result =
  parsers_called :: "parser_call list"
  next_arg :: "exception + request"

definition startsWith :: "string \<Rightarrow> string \<Rightarrow> bool" where
  "startsWith s p = (take (length p) s = p)"

definition json_options :: parser_options where
  "json_options = \<lparr> opt_limit = ''5mb'', opt_extended = None \<rparr>"

definition urlencoded_options :: parser_options where
  "urlencoded_options = \<lparr> opt_limit = ''5mb'', opt_extended = Some True \<rparr>"

definition use :: "express \<Rightarrow> request \<Rightarrow> middleware_result" where
  "use ex req =
     (if (case baseUrl req of None \<Rightarrow> False | Some b \<Rightarrow> startsWith b ''/api/auth'')
         \<or> (case url req of None \<Rightarrow> False | Some u \<Rightarrow> startsWith u ''/api/auth'')
      then \<lparr> parsers_called = [], next_arg = Inr req \<rparr>
      else
        (case json ex json_options req of
           Inl err \<Rightarrow> \<lparr> parsers_called = [json_call json_options], next_arg = Inl err \<rparr>
         | Inr req' \<Rightarrow>
             \<lparr> parsers_called = [json_call json_options, urlencoded_call urlencoded_options],
               next_arg = urlencoded ex urlencoded_options req' \<rparr>))"

section \<open>Example data\<close>

text \<open>
  The scenario of the specification: an active user, an inactive one, a third active user
  created last, and one session for each of the first two.
\<close>

definition U1 :: user where
  "U1 = \<lparr> u_id = ''u1'', u_name = Some ''Ann'', u_email = ''a@x.com'', u_emailVerified = True,
          u_createdAt = 100, u_updatedAt = 100, u_isActive = True, u_image = None \<rparr>"

definition U2 :: user where
  "U2 = \<lparr> u_id = ''u2'', u_name = None, u_email = ''b@x.com'', u_emailVerified = False,
          u_createdAt = 200, u_updatedAt = 250, u_isActive = False, u_image = None \<rparr>"

definition U3 :: user where
  "U3 = \<lparr> u_id = ''u3'', u_name = Some ''Cy'', u_email = ''c@x.com'', u_emailVerified = False,
          u_createdAt = 300, u_updatedAt = 300, u_isActive = True, u_image = None \<rparr>"

definition U4 :: user where
  "U4 = \<lparr> u_id = ''u4'', u_name = None, u_email = ''d@x.com'', u_emailVerified = False,
          u_createdAt = 400, u_updatedAt = 400, u_isActive = True, u_image = None \<rparr>"

definition S1 :: session where
  "S1 = \<lparr> s_id = ''s1'', s_expiresAt = 9000, s_token = ''t1'', s_userId = ''u1'',
          s_createdAt = 150, s_updatedAt = 150, s_ipAddress = None, s_userAgent = None \<rparr>"

definition S2 :: session where
  "S2 = \<lparr> s_id = ''s2'', s_expiresAt = 9000, s_token = ''t2'', s_userId = ''u2'',
          s_createdAt = 220, s_updatedAt = 220, s_ipAddress = None, s_userAgent = None \<rparr>"

definition db0 :: database where
  "db0 = \<lparr> users = [U1, U2, U3], sessions = [S1, S2], accounts = [] \<rparr>"

definition req0 :: request where
  "req0 = \<lparr> headers = [(''cookie'', ''better-auth.session_token=t2'')], baseUrl = Some [],
            url = Some ''/api/users'', raw = [], body = None, req_user = None,
            req_session = None \<rparr>"

definition anonymous :: request where
  "anonymous = req0\<lparr> headers := [] \<rparr>"

text \<open>
  A resolver that knows the two session cookies, throws on a third cookie, and answers
  \<open>null\<close> otherwise.
\<close>

definition provider0 :: getSession where
  "provider0 h =
     (if h = [(''cookie'', ''better-auth.session_token=t1'')]
        then Inr (Some \<lparr> sr_session = Some S1, sr_user = Some U1 \<rparr>)
      else if h = [(''cookie'', ''better-auth.session_token=t2'')]
        then Inr (Some \<lparr> sr_session = Some S2, sr_user = Some U2 \<rparr>)
      else if h = [(''cookie'', ''boom'')]
        then Inl (Error None ''provider failed'')
      else Inr None)"

text \<open>The environment without any variable set, and the configuration it gives.\<close>

definition env0 :: "string \<rightharpoonup> string" where
  "env0 = Map.empty"

definition cfg0 :: swagger_config where
  "cfg0 = configuration env0"

text \<open>Handlers that answer with their own name, to see which one ran.\<close>

definition handler_name :: "handler \<Rightarrow> request \<Rightarrow> handler" where
  "handler_name h request = h"

text \<open>Parsers of which the JSON one rejects the body \<open>{bad\<close> with status 400.\<close>

definition express0 :: express where
  "express0 =
     \<lparr> json = (\<lambda>opts req. if raw req = ''{bad'' then Inl (Error (Some 400) ''Unexpected token'')
                           else Inr (req\<lparr> body := Some [] \<rparr>)),
       urlencoded = (\<lambda>opts req. Inr req) \<rparr>"

text \<open>Inputs of the service: two create DTOs and an update DTO that sets only the name.\<close>

definition dto_fresh :: CreateUserDto where
  "dto_fresh = \<lparr> dto_name = None, dto_email = ''d@x.com'', dto_emailVerified = Some True,
                 dto_isActive = Some False \<rparr>"

definition dto_taken :: CreateUserDto where
  "dto_taken = \<lparr> dto_name = None, dto_email = ''a@x.com'', dto_emailVerified = None,
                 dto_isActive = None \<rparr>"

definition rename :: UpdateUserDto where
  "rename = \<lparr> ui_name = Some ''Zed'', ui_email = None, ui_emailVerified = None,
              ui_isActive = None \<rparr>"

section \<open>Lookups in the user table\<close>

lemma find_distinct_id:
  "distinct (map u_id xs) \<Longrightarrow> u \<in> set xs \<Longrightarrow> find (\<lambda>v. u_id v = u_id u) xs = Some u"
  by (induction xs) (auto simp: rev_image_eqI)

lemma find_none_id: "(\<forall>u\<in>set xs. u_id u \<noteq> i) \<Longrightarrow> find (\<lambda>v. u_id v = i) xs = None"
  by (induction xs) auto

lemma find_some_id:
  "\<exists>u\<in>set xs. u_id u = i \<Longrightarrow> \<exists>u. find (\<lambda>v. u_id v = i) xs = Some u \<and> u_id u = i"
  by (induction xs) auto

section \<open>The guard\<close>

lemma run_guards_rejects:
  "gs \<noteq> [] \<Longrightarrow> canActivate getSession st request = Inl e \<Longrightarrow>
     run_guards getSession st gs request = Inl e"
  by (cases gs; cases "hd gs") auto

text \<open>What the \<open>try\<close> block throws for each cause of failure, before the \<open>catch\<close>.\<close>

lemma canActivate_try_causes:
  "getSession (headers request) = Inl e \<Longrightarrow>
     canActivate_try getSession st request = Inl e"
  "getSession (headers request) = Inr None \<Longrightarrow>
     canActivate_try getSession st request
       = Inl (UnauthorizedException ''Invalid or expired session'')"
  "getSession (headers request) = Inr (Some result) \<Longrightarrow> sr_session result = Some s \<Longrightarrow>
     canActivate_try getSession Unreachable request = Inl (PrismaClientError P1001)"
  "getSession (headers request) = Inr (Some result) \<Longrightarrow> sr_session result = Some s \<Longrightarrow>
     find (\<lambda>u. u_id u = s_userId s) (users db) = None \<Longrightarrow>
     canActivate_try getSession (Connected db) request
       = Inl (UnauthorizedException ''User not found or inactive'')"
  "getSession (headers request) = Inr (Some result) \<Longrightarrow> sr_session result = Some s \<Longrightarrow>
     find (\<lambda>u. u_id u = s_userId s) (users db) = Some u \<Longrightarrow> \<not> u_isActive u \<Longrightarrow>
     canActivate_try getSession (Connected db) request
       = Inl (UnauthorizedException ''User not found or inactive'')"
  by (simp_all add: canActivate_try_def await_def prisma_user_findUnique_id_def)

lemma provider0_t2:
  "provider0 (headers req0) = Inr (Some \<lparr> sr_session = Some S2, sr_user = Some U2 \<rparr>)"
  by (simp add: provider0_def req0_def)

lemma provider0_anonymous: "provider0 (headers anonymous) = Inr None"
  by (simp add: provider0_def anonymous_def)

text \<open>
  C1. When the session resolves to a user id for which the user table has no row, or a row
  with \<open>isActive = false\<close>, the guard throws the authentication failure, and a route that
  carries the guard answers with that failure whatever its handler is: the handler is not
  run. The user table has the primary key \<open>id\<close>.
\<close>

theorem guard_rejects_missing_or_inactive_user:
  assumes "getSession (headers request) = Inr (Some result)"
    and "sr_session result = Some s"
    and "distinct (map u_id (users db))"
    and "(\<forall>u\<in>set (users db). u_id u \<noteq> s_userId s)
         \<or> (\<exists>u\<in>set (users db). u_id u = s_userId s \<and> \<not> u_isActive u)"
    and "AuthGuard \<in> set (r_guards r)"
  shows "canActivate getSession (Connected db) request
           = Inl (UnauthorizedException ''Authentication failed'')
         \<and> invoke getSession (Connected db) run r request
           = Inl (UnauthorizedException ''Authentication failed'')"
proof -
  have look: "find (\<lambda>v. u_id v = s_userId s) (users db) = None
              \<or> (\<exists>u. find (\<lambda>v. u_id v = s_userId s) (users db) = Some u \<and> \<not> u_isActive u)"
    using assms(3,4) find_none_id find_distinct_id by metis
  have thrown: "\<exists>e. canActivate_try getSession (Connected db) request = Inl e"
    using assms(1,2) look canActivate_try_causes(4,5) by blast
  then have g: "canActivate getSession (Connected db) request
           = Inl (UnauthorizedException ''Authentication failed'')"
    by (auto simp: canActivate_def)
  have "r_guards r \<noteq> []" using assms(5) by auto
  from run_guards_rejects[OF this g] g show ?thesis
    by (simp add: invoke_def)
qed

theorem guard_rejects_missing_or_inactive_user_witness:
  "canActivate provider0 (Connected db0) req0
     = Inl (UnauthorizedException ''Authentication failed'')
   \<and> invoke provider0 (Connected db0) handler_name
        \<lparr> r_method = GET, r_path = [Lit ''users''], r_guards = [AuthGuard],
          r_handler = UsersController_findAll \<rparr> req0
     = Inl (UnauthorizedException ''Authentication failed'')"
proof -
  have b: "sr_session \<lparr> sr_session = Some S2, sr_user = Some U2 \<rparr> = Some S2" by simp
  have c: "distinct (map u_id (users db0))" by (simp add: db0_def U1_def U2_def U3_def)
  have d: "(\<forall>u\<in>set (users db0). u_id u \<noteq> s_userId S2)
         \<or> (\<exists>u\<in>set (users db0). u_id u = s_userId S2 \<and> \<not> u_isActive u)"
    by (simp add: db0_def U1_def U2_def U3_def S2_def)
  have e: "AuthGuard \<in> set (r_guards \<lparr> r_method = GET, r_path = [Lit ''users''],
        r_guards = [AuthGuard], r_handler = UsersController_findAll \<rparr>)" by simp
  show ?thesis
    using guard_rejects_missing_or_inactive_user
            [where getSession = provider0 and request = req0 and run = handler_name,
             OF provider0_t2 b c d e]
    by simp
qed

text \<open>
  C2. When the resolver returns nothing, or a result that lacks the session or the user,
  the \<open>try\<close> block throws "Invalid or expired session" and the guard rejects with the
  authentication failure. The store does not matter, so the user lookup has not been
  reached. The resolver is one whose result without a user is also without a session, as
  the library's is.
\<close>

theorem guard_rejects_missing_session_or_user:
  assumes "getSession (headers request) = Inr answer"
      and "paired answer"
      and "answer = None
           \<or> (\<exists>result. answer = Some result
                \<and> (sr_session result = None \<or> sr_user result = None))"
  shows "canActivate_try getSession st request
           = Inl (UnauthorizedException ''Invalid or expired session'')
         \<and> canActivate getSession st request
           = Inl (UnauthorizedException ''Authentication failed'')"
proof -
  from assms(2,3) have "answer = None \<or> (\<exists>result. answer = Some result \<and> sr_session result = None)"
    by (auto simp: paired_def)
  with assms(1) show ?thesis
    by (auto simp: canActivate_def canActivate_try_def)
qed

theorem guard_rejects_missing_session_or_user_witness:
  "provider0 (headers anonymous) = Inr None
   \<and> paired None
   \<and> canActivate_try provider0 Unreachable anonymous
       = Inl (UnauthorizedException ''Invalid or expired session'')
   \<and> canActivate provider0 Unreachable anonymous
       = Inl (UnauthorizedException ''Authentication failed'')"
proof -
  have p: "paired None" by (simp add: paired_def)
  have n: "(None :: session_result option) = None
           \<or> (\<exists>result. None = Some result
                \<and> (sr_session result = None \<or> sr_user result = None))" by simp
  from guard_rejects_missing_session_or_user
         [where getSession = provider0 and request = anonymous and st = Unreachable,
          OF provider0_anonymous p n]
       provider0_anonymous p
  show ?thesis by simp
qed

text \<open>
  C3. Any two rejections by the guard throw the same exception, with the same response for
  the caller: status 401 and the message "Authentication failed", whichever step failed and
  whatever was thrown inside the \<open>try\<close> block.
\<close>

theorem guard_rejection_uniform:
  assumes "canActivate getSession1 st1 request1 = Inl e1"
      and "canActivate getSession2 st2 request2 = Inl e2"
  shows "e1 = e2 \<and> exception_response e1 = exception_response e2
         \<and> exception_response e1 = \<lparr> statusCode = 401, message = ''Authentication failed'' \<rparr>"
  using assms by (auto simp: canActivate_def split: sum.splits)

theorem guard_rejection_uniform_witness:
  "canActivate_try provider0 (Connected db0) req0
     = Inl (UnauthorizedException ''User not found or inactive'')
   \<and> canActivate_try provider0 Unreachable
         (req0\<lparr> headers := [(''cookie'', ''better-auth.session_token=t1'')] \<rparr>)
       = Inl (PrismaClientError P1001)
   \<and> canActivate provider0 (Connected db0) req0
       = Inl (UnauthorizedException ''Authentication failed'')
   \<and> canActivate provider0 Unreachable
         (req0\<lparr> headers := [(''cookie'', ''better-auth.session_token=t1'')] \<rparr>)
       = Inl (UnauthorizedException ''Authentication failed'')
   \<and> exception_response (UnauthorizedException ''Authentication failed'')
       = \<lparr> statusCode = 401, message = ''Authentication failed'' \<rparr>"
proof -
  let ?r1 = "req0\<lparr> headers := [(''cookie'', ''better-auth.session_token=t1'')] \<rparr>"
  have c: "canActivate_try provider0 (Connected db0) req0
             = Inl (UnauthorizedException ''User not found or inactive'')"
    by (simp add: canActivate_try_def await_def prisma_user_findUnique_id_def
        provider0_def req0_def db0_def U1_def U2_def U3_def S2_def)
  have d: "canActivate_try provider0 Unreachable ?r1 = Inl (PrismaClientError P1001)"
    by (simp add: canActivate_try_def await_def prisma_user_findUnique_id_def provider0_def)
  from c have a: "canActivate provider0 (Connected db0) req0
             = Inl (UnauthorizedException ''Authentication failed'')"
    by (simp add: canActivate_def)
  from d have b: "canActivate provider0 Unreachable ?r1
             = Inl (UnauthorizedException ''Authentication failed'')"
    by (simp add: canActivate_def)
  from guard_rejection_uniform[OF a b] a b c d show ?thesis by simp
qed

section \<open>The routes\<close>

lemma registered_api:
  assumes "sw_path cfg = ''api''"
  shows "registered cfg =
     (if sw_enabled cfg
      then [ \<lparr> r_method = GET, r_path = [Lit ''api''], r_guards = [],
               r_handler = SwaggerModule_ui \<rparr>,
             \<lparr> r_method = GET, r_path = [Lit ''api'', Lit ''swagger-ui-init.js''], r_guards = [],
               r_handler = SwaggerModule_init \<rparr>,
             \<lparr> r_method = GET, r_path = [Lit ''api-json''], r_guards = [],
               r_handler = SwaggerModule_json \<rparr>,
             \<lparr> r_method = GET, r_path = [Lit ''api-yaml''], r_guards = [],
               r_handler = SwaggerModule_yaml \<rparr> ]
      else [])
     @ [ \<lparr> r_method = GET, r_path = [Lit ''api''], r_guards = [],
           r_handler = AppController_getHello \<rparr>,
         \<lparr> r_method = GET, r_path = [Lit ''api'', Lit ''health''], r_guards = [],
           r_handler = AppController_getHealth \<rparr>,
         \<lparr> r_method = POST, r_path = [Lit ''api'', Lit ''users''], r_guards = [],
           r_handler = UsersController_create \<rparr>,
         \<lparr> r_method = GET, r_path = [Lit ''api'', Lit ''users''], r_guards = [AuthGuard],
           r_handler = UsersController_findAll \<rparr>,
         \<lparr> r_method = GET, r_path = [Lit ''api'', Lit ''users'', Lit ''me''],
           r_guards = [AuthGuard], r_handler = UsersController_getCurrentUser \<rparr>,
         \<lparr> r_method = GET, r_path = [Lit ''api'', Lit ''users'', Param ''id''],
           r_guards = [AuthGuard], r_handler = UsersController_findOne \<rparr>,
         \<lparr> r_method = PATCH, r_path = [Lit ''api'', Lit ''users'', Param ''id''],
           r_guards = [AuthGuard], r_handler = UsersController_update \<rparr>,
         \<lparr> r_method = DELETE, r_path = [Lit ''api'', Lit ''users'', Param ''id''],
           r_guards = [AuthGuard], r_handler = UsersController_remove \<rparr> ]"
  using assms
  by (simp add: registered_def swagger_routes_def segments_def beside_def globalPrefix_def
        routes_def AppController_def UsersController_def)

lemma lower_literals:
  "toLowerCase ''api'' = ''api''" "toLowerCase ''health'' = ''health''"
  "toLowerCase ''users'' = ''users''" "toLowerCase ''me'' = ''me''"
  "toLowerCase ''swagger-ui-init.js'' = ''swagger-ui-init.js''"
  "toLowerCase ''api-json'' = ''api-json''" "toLowerCase ''api-yaml'' = ''api-yaml''"
  by (simp_all add: toLowerCase_def lower_char_def)

lemma resolve_simps:
  assumes "sw_path cfg = ''api''"
  shows
  "resolve cfg GET [''api''] = Some \<lparr> r_method = GET, r_path = [Lit ''api''], r_guards = [],
         r_handler = (if sw_enabled cfg then SwaggerModule_ui else AppController_getHello) \<rparr>"
  "resolve cfg GET [''api'', ''health''] = Some \<lparr> r_method = GET,
         r_path = [Lit ''api'', Lit ''health''], r_guards = [],
         r_handler = AppController_getHealth \<rparr>"
  "resolve cfg POST [''api'', ''users''] = Some \<lparr> r_method = POST,
         r_path = [Lit ''api'', Lit ''users''], r_guards = [],
         r_handler = UsersController_create \<rparr>"
  "resolve cfg GET [''api'', ''users''] = Some \<lparr> r_method = GET,
         r_path = [Lit ''api'', Lit ''users''], r_guards = [AuthGuard],
         r_handler = UsersController_findAll \<rparr>"
  "resolve cfg GET [''api'', ''users'', ''me''] = Some \<lparr> r_method = GET,
         r_path = [Lit ''api'', Lit ''users'', Lit ''me''],
         r_guards = [AuthGuard], r_handler = UsersController_getCurrentUser \<rparr>"
  "toLowerCase i \<noteq> ''me'' \<Longrightarrow> resolve cfg GET [''api'', ''users'', i] = Some \<lparr> r_method = GET,
         r_path = [Lit ''api'', Lit ''users'', Param ''id''], r_guards = [AuthGuard],
         r_handler = UsersController_findOne \<rparr>"
  "toLowerCase i = ''me'' \<Longrightarrow> resolve cfg GET [''api'', ''users'', i] = Some \<lparr> r_method = GET,
         r_path = [Lit ''api'', Lit ''users'', Lit ''me''],
         r_guards = [AuthGuard], r_handler = UsersController_getCurrentUser \<rparr>"
  "resolve cfg PATCH [''api'', ''users'', i] = Some \<lparr> r_method = PATCH,
         r_path = [Lit ''api'', Lit ''users'', Param ''id''], r_guards = [AuthGuard],
         r_handler = UsersController_update \<rparr>"
  "resolve cfg DELETE [''api'', ''users'', i] = Some \<lparr> r_method = DELETE,
         r_path = [Lit ''api'', Lit ''users'', Param ''id''], r_guards = [AuthGuard],
         r_handler = UsersController_remove \<rparr>"
  by (cases "sw_enabled cfg"; simp add: resolve_def registered_api[OF assms] lower_literals)+

lemma cfg0_api: "sw_path cfg0 = ''api''" "sw_enabled cfg0"
  by (simp_all add: cfg0_def configuration_def env0_def)

lemma requires_session_GET_id:
  "sw_path cfg = ''api'' \<Longrightarrow> requires_session cfg GET [''api'', ''users'', i]"
  by (cases "toLowerCase i = ''me''") (simp_all add: requires_session_def resolve_simps)

lemma serve_without_session:
  assumes "requires_session cfg m path" and "getSession (headers request) = Inr None"
  shows "serve cfg getSession st run m path request
           = Inl (UnauthorizedException ''Authentication failed'')"
proof -
  from assms(1) obtain r where r: "resolve cfg m path = Some r" "AuthGuard \<in> set (r_guards r)"
    by (auto simp: requires_session_def split: option.splits)
  then have ne: "r_guards r \<noteq> []" by auto
  have "canActivate getSession st request = Inl (UnauthorizedException ''Authentication failed'')"
    using assms(2) by (simp add: canActivate_def canActivate_try_def)
  from run_guards_rejects[OF ne this] r(1) show ?thesis
    by (simp add: serve_def invoke_def)
qed

text \<open>
  C6, as stated, fails: \<open>GET /health\<close> carries no guard. With the configuration of an
  empty environment, a request without any session is served by its handler.
\<close>

theorem health_route_unguarded:
  "\<not> requires_session cfg0 GET [''api'', ''health'']
   \<and> provider0 (headers anonymous) = Inr None
   \<and> serve cfg0 provider0 (Connected db0) handler_name GET [''api'', ''health''] anonymous
       = Inr AppController_getHealth"
  by (simp add: requires_session_def resolve_simps(2)[OF cfg0_api(1)] serve_def invoke_def
        handler_name_def provider0_anonymous)

text \<open>
  C6, amended. The paths are below the global prefix \<open>/api\<close>, and the documentation path
  is \<open>api\<close>, its default. Of the eight routes, the five \<open>GET /users\<close>, \<open>GET /users/me\<close>,
  \<open>GET /users/:id\<close>, \<open>PATCH /users/:id\<close> and \<open>DELETE /users/:id\<close> carry the guard, and
  a request for which the resolver finds no session is rejected there; \<open>GET /\<close>,
  \<open>GET /health\<close> and \<open>POST /users\<close> carry none and are answered whatever the resolver
  would say: \<open>GET /health\<close> and \<open>POST /users\<close> by their controller methods, \<open>GET /\<close> by
  the documentation page when the documentation is enabled and by \<open>getHello\<close> otherwise.
\<close>

theorem route_gating:
  assumes "sw_path cfg = ''api''"
  shows
  "\<not> requires_session cfg GET [''api'']
   \<and> \<not> requires_session cfg GET [''api'', ''health'']
   \<and> \<not> requires_session cfg POST [''api'', ''users'']
   \<and> requires_session cfg GET [''api'', ''users'']
   \<and> requires_session cfg GET [''api'', ''users'', ''me'']
   \<and> requires_session cfg GET [''api'', ''users'', i]
   \<and> requires_session cfg PATCH [''api'', ''users'', i]
   \<and> requires_session cfg DELETE [''api'', ''users'', i]
   \<and> serve cfg getSession st run GET [''api''] request
       = Inr (run (if sw_enabled cfg then SwaggerModule_ui else AppController_getHello) request)
   \<and> serve cfg getSession st run GET [''api'', ''health''] request
       = Inr (run AppController_getHealth request)
   \<and> serve cfg getSession st run POST [''api'', ''users''] request
       = Inr (run UsersController_create request)
   \<and> (\<forall>m path. requires_session cfg m path \<and> getSession (headers request) = Inr None \<longrightarrow>
         serve cfg getSession st run m path request
           = Inl (UnauthorizedException ''Authentication failed''))"
proof -
  note rs = resolve_simps[OF assms]
  have open_routes:
    "\<not> requires_session cfg GET [''api''] \<and> \<not> requires_session cfg GET [''api'', ''health'']
     \<and> \<not> requires_session cfg POST [''api'', ''users'']"
    by (simp add: requires_session_def rs(1,2,3))
  have gated_routes:
    "requires_session cfg GET [''api'', ''users'']
     \<and> requires_session cfg GET [''api'', ''users'', ''me'']
     \<and> requires_session cfg GET [''api'', ''users'', i]
     \<and> requires_session cfg PATCH [''api'', ''users'', i]
     \<and> requires_session cfg DELETE [''api'', ''users'', i]"
    using requires_session_GET_id [OF assms, of i]
    by (simp add: requires_session_def rs(4,5,8,9))
  have served:
    "serve cfg getSession st run GET [''api''] request
       = Inr (run (if sw_enabled cfg then SwaggerModule_ui else AppController_getHello) request)
     \<and> serve cfg getSession st run GET [''api'', ''health''] request
       = Inr (run AppController_getHealth request)
     \<and> serve cfg getSession st run POST [''api'', ''users''] request
       = Inr (run UsersController_create request)"
    by (simp add: serve_def invoke_def rs(1,2,3))
  have rejected:
    "\<forall>m path. requires_session cfg m path \<and> getSession (headers request) = Inr None \<longrightarrow>
         serve cfg getSession st run m path request
           = Inl (UnauthorizedException ''Authentication failed'')"
    using serve_without_session by blast
  from open_routes gated_routes served rejected show ?thesis by simp
qed

theorem route_gating_witness:
  "sw_path cfg0 = ''api''
   \<and> requires_session cfg0 DELETE [''api'', ''users'', ''u1'']
   \<and> provider0 (headers anonymous) = Inr None
   \<and> serve cfg0 provider0 (Connected db0) handler_name DELETE [''api'', ''users'', ''u1'']
         anonymous
       = Inl (UnauthorizedException ''Authentication failed'')
   \<and> serve cfg0 provider0 (Connected db0) handler_name POST [''api'', ''users''] anonymous
       = Inr UsersController_create
   \<and> serve cfg0 provider0 (Connected db0) handler_name GET [''api''] anonymous
       = Inr SwaggerModule_ui"
proof -
  note t = route_gating[where cfg = cfg0 and i = "''u1''" and getSession = provider0
             and st = "Connected db0" and run = handler_name and request = anonymous,
             OF cfg0_api(1)]
  from t have b: "requires_session cfg0 DELETE [''api'', ''users'', ''u1'']" by blast
  from t provider0_anonymous b
  have c: "serve cfg0 provider0 (Connected db0) handler_name DELETE [''api'', ''users'', ''u1'']
             anonymous
             = Inl (UnauthorizedException ''Authentication failed'')"
    by blast
  from t have d: "serve cfg0 provider0 (Connected db0) handler_name POST [''api'', ''users'']
       anonymous = Inr (handler_name UsersController_create anonymous)" by blast
  from t have e: "serve cfg0 provider0 (Connected db0) handler_name GET [''api''] anonymous
       = Inr (handler_name (if sw_enabled cfg0 then SwaggerModule_ui else AppController_getHello)
                anonymous)" by blast
  from cfg0_api provider0_anonymous b c d e show ?thesis by (simp add: handler_name_def)
qed

section \<open>The body-routing middleware\<close>

text \<open>
  A parse failure short-circuits: the error of the JSON parser is handed on, and the
  URL-encoded parser is not called.
\<close>

lemma json_error_short_circuits:
  "use express0 (req0\<lparr> raw := ''{bad'' \<rparr>)
     = \<lparr> parsers_called = [json_call json_options],
         next_arg = Inl (Error (Some 400) ''Unexpected token'') \<rparr>"
  by (simp add: use_def express0_def req0_def startsWith_def)

text \<open>
  C5. A request whose path (\<open>baseUrl\<close> or \<open>url\<close>) starts with the authentication route
  prefix \<open>/api/auth\<close> is handed on as it is and no parser is called. Every other request
  goes to the JSON parser with the limit \<open>5mb\<close> and then to the URL-encoded parser with the
  limit \<open>5mb\<close>, which receives the request the JSON parser handed on and decides what is
  handed on; a parse failure of the JSON parser ends the sequence with that error.
\<close>

theorem body_routing:
  "((\<exists>p. (baseUrl req = Some p \<or> url req = Some p) \<and> startsWith p ''/api/auth'') \<longrightarrow>
       use ex req = \<lparr> parsers_called = [], next_arg = Inr req \<rparr>)
   \<and> (\<not> (\<exists>p. (baseUrl req = Some p \<or> url req = Some p) \<and> startsWith p ''/api/auth'') \<longrightarrow>
       opt_limit json_options = ''5mb'' \<and> opt_limit urlencoded_options = ''5mb''
       \<and> (case json ex json_options req of
            Inl err \<Rightarrow>
              use ex req = \<lparr> parsers_called = [json_call json_options], next_arg = Inl err \<rparr>
          | Inr req' \<Rightarrow>
              use ex req = \<lparr> parsers_called = [json_call json_options,
                                               urlencoded_call urlencoded_options],
                             next_arg = urlencoded ex urlencoded_options req' \<rparr>))"
proof (cases "\<exists>p. (baseUrl req = Some p \<or> url req = Some p) \<and> startsWith p ''/api/auth''")
  case True
  then have "(case baseUrl req of None \<Rightarrow> False | Some b \<Rightarrow> startsWith b ''/api/auth'')
         \<or> (case url req of None \<Rightarrow> False | Some u \<Rightarrow> startsWith u ''/api/auth'')"
    by (auto split: option.splits)
  then have "use ex req = \<lparr> parsers_called = [], next_arg = Inr req \<rparr>"
    unfolding use_def by simp
  with True show ?thesis by simp
next
  case False
  then have "\<not> ((case baseUrl req of None \<Rightarrow> False | Some b \<Rightarrow> startsWith b ''/api/auth'')
         \<or> (case url req of None \<Rightarrow> False | Some u \<Rightarrow> startsWith u ''/api/auth''))"
    by (auto split: option.splits)
  then have "use ex req =
     (case json ex json_options req of
        Inl err \<Rightarrow> \<lparr> parsers_called = [json_call json_options], next_arg = Inl err \<rparr>
      | Inr req' \<Rightarrow>
          \<lparr> parsers_called = [json_call json_options, urlencoded_call urlencoded_options],
            next_arg = urlencoded ex urlencoded_options req' \<rparr>)"
    unfolding use_def by simp
  with False show ?thesis
    by (simp add: json_options_def urlencoded_options_def split: sum.splits)
qed

theorem body_routing_witness:
  "startsWith ''/api/auth/sign-in/email'' ''/api/auth''
   \<and> use express0 (req0\<lparr> url := Some ''/api/auth/sign-in/email'', raw := ''{bad'' \<rparr>)
       = \<lparr> parsers_called = [],
           next_arg = Inr (req0\<lparr> url := Some ''/api/auth/sign-in/email'', raw := ''{bad'' \<rparr>) \<rparr>
   \<and> \<not> startsWith ''/api/users'' ''/api/auth''
   \<and> use express0 req0
       = \<lparr> parsers_called = [json_call json_options, urlencoded_call urlencoded_options],
           next_arg = Inr (req0\<lparr> body := Some [] \<rparr>) \<rparr>"
proof -
  let ?auth = "req0\<lparr> url := Some ''/api/auth/sign-in/email'', raw := ''{bad'' \<rparr>"
  have a: "startsWith ''/api/auth/sign-in/email'' ''/api/auth''" by (simp add: startsWith_def)
  have b: "\<not> startsWith ''/api/users'' ''/api/auth''" by (simp add: startsWith_def)
  have c: "\<exists>p. (baseUrl ?auth = Some p \<or> url ?auth = Some p) \<and> startsWith p ''/api/auth''"
    using a by (intro exI[of _ "''/api/auth/sign-in/email''"]) simp
  have d: "\<not> (\<exists>p. (baseUrl req0 = Some p \<or> url req0 = Some p) \<and> startsWith p ''/api/auth'')"
    using b by (auto simp: req0_def startsWith_def)
  have e: "json express0 json_options req0 = Inr (req0\<lparr> body := Some [] \<rparr>)"
    by (simp add: express0_def req0_def)
  have f: "urlencoded express0 urlencoded_options (req0\<lparr> body := Some [] \<rparr>)
            = Inr (req0\<lparr> body := Some [] \<rparr>)"
    by (simp add: express0_def)
  from body_routing[of ?auth express0] c
  have g: "use express0 ?auth = \<lparr> parsers_called = [], next_arg = Inr ?auth \<rparr>"
    by blast
  from body_routing[of req0 express0] d e f
  have h: "use express0 req0
       = \<lparr> parsers_called = [json_call json_options, urlencoded_call urlencoded_options],
           next_arg = Inr (req0\<lparr> body := Some [] \<rparr>) \<rparr>"
    by simp
  from a b g h show ?thesis by simp
qed

section \<open>The users service\<close>

subsection \<open>Errors of the store\<close>

lemma update_missing_id:
  "\<forall>u\<in>set (users db). u_id u \<noteq> i \<Longrightarrow>
     update (Connected db) now i dto = Inl (PrismaClientError P2025)"
  by (simp add: update_def await_def prisma_user_update_def find_none_id)

lemma remove_missing_id:
  "\<forall>u\<in>set (users db). u_id u \<noteq> i \<Longrightarrow>
     remove (Connected db) now i = Inl (PrismaClientError P2025)"
  by (simp add: remove_def await_def prisma_user_update_def find_none_id)

lemma create_taken_email:
  assumes "\<exists>u\<in>set (users db). u_email u = dto_email c"
  shows "\<exists>fields. create (Connected db) now nid c = Inl (PrismaClientError (P2002 fields))"
proof (cases "list_ex (\<lambda>u. u_id u = nid) (users db)")
  case True
  then have "create (Connected db) now nid c = Inl (PrismaClientError (P2002 [''id'']))"
    by (simp add: create_def await_def prisma_user_create_def)
  then show ?thesis by blast
next
  case False
  moreover have "list_ex (\<lambda>u. u_email u = dto_email c) (users db)"
    using assms by (simp add: list_ex_iff)
  ultimately have "create (Connected db) now nid c = Inl (PrismaClientError (P2002 [''email'']))"
    by (simp add: create_def await_def prisma_user_create_def)
  then show ?thesis by blast
qed

lemma create_dto_taken:
  "create (Connected db0) 400 ''u4'' dto_taken = Inl (PrismaClientError (P2002 [''email'']))"
  by (simp add: create_def await_def prisma_user_create_def dto_taken_def
        db0_def U1_def U2_def U3_def)

text \<open>
  C4, as stated, fails: an update or a remove of an id without a row throws the store's
  error P2025, a create with a taken email throws the store's error P2002, and both reach
  the caller as the same response with status 500. No NotFound or Conflict is thrown.
\<close>

theorem store_errors_reach_caller_alike:
  "update (Connected db0) 400 ''u9'' rename = Inl (PrismaClientError P2025)
   \<and> remove (Connected db0) 400 ''u9'' = Inl (PrismaClientError P2025)
   \<and> create (Connected db0) 400 ''u4'' dto_taken = Inl (PrismaClientError (P2002 [''email'']))
   \<and> exception_response (PrismaClientError P2025)
       = exception_response (PrismaClientError (P2002 [''email'']))
   \<and> statusCode (exception_response (PrismaClientError P2025)) = 500"
  by (simp add: update_def remove_def create_def await_def prisma_user_update_def
        prisma_user_create_def dto_taken_def db0_def U1_def U2_def U3_def)

text \<open>
  C4, amended. The service hands on the error of the store unchanged: P2025 for an update
  or a remove of an id without a row, P2002 for a create with an email that a row already
  has. The response for the caller is the same for every error of the store: status 500
  with a fixed message.
\<close>

theorem store_errors_propagate:
  "((\<forall>u\<in>set (users db). u_id u \<noteq> i) \<longrightarrow>
       update (Connected db) now i dto = Inl (PrismaClientError P2025)
       \<and> remove (Connected db) now i = Inl (PrismaClientError P2025))
   \<and> ((\<exists>u\<in>set (users db). u_email u = dto_email c) \<longrightarrow>
       (\<exists>fields. create (Connected db) now nid c = Inl (PrismaClientError (P2002 fields))))
   \<and> exception_response (PrismaClientError e)
       = \<lparr> statusCode = 500, message = ''Internal server error'' \<rparr>"
  using update_missing_id remove_missing_id create_taken_email by simp

theorem store_errors_propagate_witness:
  "map u_id (users db0) = [''u1'', ''u2'', ''u3'']
   \<and> map u_email (users db0) = [''a@x.com'', ''b@x.com'', ''c@x.com'']
   \<and> dto_email dto_taken = ''a@x.com''
   \<and> update (Connected db0) 400 ''u9'' rename = Inl (PrismaClientError P2025)
   \<and> remove (Connected db0) 400 ''u9'' = Inl (PrismaClientError P2025)
   \<and> create (Connected db0) 400 ''u4'' dto_taken = Inl (PrismaClientError (P2002 [''email'']))
   \<and> exception_response (PrismaClientError P2025)
       = \<lparr> statusCode = 500, message = ''Internal server error'' \<rparr>"
proof -
  have ids: "map u_id (users db0) = [''u1'', ''u2'', ''u3'']"
    by (simp add: db0_def U1_def U2_def U3_def)
  have emails: "map u_email (users db0) = [''a@x.com'', ''b@x.com'', ''c@x.com'']"
    by (simp add: db0_def U1_def U2_def U3_def)
  have taken: "dto_email dto_taken = ''a@x.com''" by (simp add: dto_taken_def)
  have a: "\<forall>u\<in>set (users db0). u_id u \<noteq> ''u9''"
    by (simp add: db0_def U1_def U2_def U3_def)
  have b: "\<exists>u\<in>set (users db0). u_email u = dto_email dto_taken"
    by (simp add: db0_def U1_def U2_def U3_def dto_taken_def)
  note t = store_errors_propagate[of db0 "''u9''" 400 rename dto_taken "''u4''" P2025]
  from t a have c: "update (Connected db0) 400 ''u9'' rename = Inl (PrismaClientError P2025)"
    and d: "remove (Connected db0) 400 ''u9'' = Inl (PrismaClientError P2025)"
    by blast+
  from t b have "\<exists>fields. create (Connected db0) 400 ''u4'' dto_taken
                   = Inl (PrismaClientError (P2002 fields))" by blast
  with create_dto_taken
  have e: "create (Connected db0) 400 ''u4'' dto_taken = Inl (PrismaClientError (P2002 [''email'']))"
    by simp
  from t have f: "exception_response (PrismaClientError P2025)
       = \<lparr> statusCode = 500, message = ''Internal server error'' \<rparr>" by blast
  from ids emails taken c d e f show ?thesis by (intro conjI)
qed

subsection \<open>Listing\<close>

lemma sorted_desc_sort_key:
  "sorted_wrt (\<lambda>a b. u_createdAt b \<le> u_createdAt a) (sort_key (\<lambda>u. - u_createdAt u) xs)"
proof -
  have "sorted (map (\<lambda>u. - u_createdAt u) (sort_key (\<lambda>u. - u_createdAt u) xs))"
    by (rule sorted_sort_key)
  then show ?thesis by (simp add: sorted_map)
qed

lemma findAll_db0: "findAll (Connected db0) = Inr [U3, U1]"
  by (simp add: findAll_def await_def prisma_user_findMany_def db0_def U1_def U2_def U3_def)

text \<open>
  C7. For every user table, \<open>findAll\<close> returns the rows with \<open>isActive = true\<close>, each as
  often as the table holds it, ordered by \<open>createdAt\<close> with the newest first; no row of
  the result is inactive.
\<close>

theorem findAll_active_newest_first:
  "\<exists>us. findAll (Connected db) = Inr us
        \<and> mset us = mset (filter u_isActive (users db))
        \<and> sorted_wrt (\<lambda>a b. u_createdAt b \<le> u_createdAt a) us
        \<and> (\<forall>u\<in>set us. u_isActive u)"
proof -
  let ?us = "sort_key (\<lambda>u. - u_createdAt u) (filter u_isActive (users db))"
  have "findAll (Connected db) = Inr ?us"
    by (simp add: findAll_def await_def prisma_user_findMany_def)
  moreover have "mset ?us = mset (filter u_isActive (users db))" by simp
  moreover have "sorted_wrt (\<lambda>a b. u_createdAt b \<le> u_createdAt a) ?us"
    by (rule sorted_desc_sort_key)
  moreover have "\<forall>u\<in>set ?us. u_isActive u" by simp
  ultimately show ?thesis by blast
qed

theorem findAll_active_newest_first_witness:
  "findAll (Connected db0) = Inr [U3, U1]
   \<and> mset [U3, U1] = mset (filter u_isActive (users db0))
   \<and> u_createdAt U1 \<le> u_createdAt U3
   \<and> u_isActive U3 \<and> u_isActive U1 \<and> \<not> u_isActive U2"
proof -
  from findAll_active_newest_first[of db0] obtain us where
    us: "findAll (Connected db0) = Inr us" "mset us = mset (filter u_isActive (users db0))"
        "sorted_wrt (\<lambda>a b. u_createdAt b \<le> u_createdAt a) us" "\<forall>u\<in>set us. u_isActive u"
    by blast
  from us(1) findAll_db0 have eq: "us = [U3, U1]" by simp
  from us(2,3,4) have "mset [U3, U1] = mset (filter u_isActive (users db0))"
    "u_createdAt U1 \<le> u_createdAt U3" "u_isActive U3" "u_isActive U1"
    unfolding eq by simp_all
  moreover have "\<not> u_isActive U2" by (simp add: U2_def)
  ultimately show ?thesis using findAll_db0 by (intro conjI)
qed

subsection \<open>Soft removal\<close>

lemma remove_found:
  "find (\<lambda>v. u_id v = i) (users db) = Some u \<Longrightarrow>
   remove (Connected db) now i =
     Inr (db\<lparr>users := map (\<lambda>v. if u_id v = i
                                  then v\<lparr>u_isActive := False, u_updatedAt := now\<rparr> else v)
                            (users db)\<rparr>)"
  by (simp add: remove_def await_def prisma_user_update_def apply_update_def no_fields_def)

lemma deactivated_all:
  "\<forall>u\<in>set (map (\<lambda>v. if u_id v = i then v\<lparr>u_isActive := False, u_updatedAt := now\<rparr> else v) xs).
         u_id u = i \<longrightarrow> \<not> u_isActive u"
  by (induction xs) simp_all

lemma deactivated_kept:
  "\<exists>u\<in>set xs. u_id u = i \<Longrightarrow>
   \<exists>u\<in>set (map (\<lambda>v. if u_id v = i then v\<lparr>u_isActive := False, u_updatedAt := now\<rparr> else v) xs).
      u_id u = i"
  by (induction xs) auto

lemma remove_existing:
  assumes "\<exists>u\<in>set (users db). u_id u = i"
  shows "\<exists>db'. remove (Connected db) now i = Inr db'
           \<and> (\<exists>u\<in>set (users db'). u_id u = i)
           \<and> (\<forall>u\<in>set (users db'). u_id u = i \<longrightarrow> \<not> u_isActive u)
           \<and> sessions db' = sessions db \<and> accounts db' = accounts db"
proof -
  from find_some_id[OF assms] obtain u where u: "find (\<lambda>v. u_id v = i) (users db) = Some u"
    by blast
  let ?xs = "map (\<lambda>v. if u_id v = i then v\<lparr>u_isActive := False, u_updatedAt := now\<rparr> else v)
                 (users db)"
  have sel: "users (db\<lparr>users := ?xs\<rparr>) = ?xs" by simp
  have "remove (Connected db) now i = Inr (db\<lparr>users := ?xs\<rparr>)"
    by (rule remove_found[OF u])
  moreover have "\<exists>u\<in>set (users (db\<lparr>users := ?xs\<rparr>)). u_id u = i"
    unfolding sel by (rule deactivated_kept[OF assms])
  moreover have "\<forall>u\<in>set (users (db\<lparr>users := ?xs\<rparr>)). u_id u = i \<longrightarrow> \<not> u_isActive u"
    unfolding sel by (rule deactivated_all)
  moreover have "sessions (db\<lparr>users := ?xs\<rparr>) = sessions db" by simp
  moreover have "accounts (db\<lparr>users := ?xs\<rparr>) = accounts db" by simp
  ultimately show ?thesis by (intro exI[of _ "db\<lparr>users := ?xs\<rparr>"] conjI)
qed

lemma remove_db0:
  "remove (Connected db0) 400 ''u1''
     = Inr (db0\<lparr>users := [U1\<lparr>u_isActive := False, u_updatedAt := 400\<rparr>, U2, U3]\<rparr>)"
  by (simp add: remove_def await_def prisma_user_update_def apply_update_def no_fields_def
        db0_def U1_def U2_def U3_def)

lemma remove_db0_again:
  "remove (Connected (db0\<lparr>users := [U1\<lparr>u_isActive := False, u_updatedAt := 400\<rparr>, U2, U3]\<rparr>))
       500 ''u1''
     = Inr (db0\<lparr>users := [U1\<lparr>u_isActive := False, u_updatedAt := 500\<rparr>, U2, U3]\<rparr>)"
  by (simp add: remove_def await_def prisma_user_update_def apply_update_def no_fields_def
        db0_def U1_def U2_def U3_def)

text \<open>
  C8. For an id that has a row, \<open>remove\<close> called twice returns both times; after each call
  the row is still there with \<open>isActive = false\<close>, and the tables of sessions and of
  accounts are the ones before the first call.
\<close>

theorem remove_twice:
  assumes "\<exists>u\<in>set (users db). u_id u = i"
  shows "\<exists>db1 db2. remove (Connected db) t1 i = Inr db1
           \<and> remove (Connected db1) t2 i = Inr db2
           \<and> (\<exists>u\<in>set (users db1). u_id u = i)
           \<and> (\<forall>u\<in>set (users db1). u_id u = i \<longrightarrow> \<not> u_isActive u)
           \<and> (\<exists>u\<in>set (users db2). u_id u = i)
           \<and> (\<forall>u\<in>set (users db2). u_id u = i \<longrightarrow> \<not> u_isActive u)
           \<and> sessions db1 = sessions db \<and> accounts db1 = accounts db
           \<and> sessions db2 = sessions db \<and> accounts db2 = accounts db"
proof -
  from remove_existing[OF assms, of t1] obtain db1 where
    r1: "remove (Connected db) t1 i = Inr db1" and e1: "\<exists>u\<in>set (users db1). u_id u = i"
    and a1: "\<forall>u\<in>set (users db1). u_id u = i \<longrightarrow> \<not> u_isActive u"
    and s1: "sessions db1 = sessions db" and c1: "accounts db1 = accounts db"
    by blast
  from remove_existing[OF e1, of t2] obtain db2 where
    r2: "remove (Connected db1) t2 i = Inr db2" and e2: "\<exists>u\<in>set (users db2). u_id u = i"
    and a2: "\<forall>u\<in>set (users db2). u_id u = i \<longrightarrow> \<not> u_isActive u"
    and s2: "sessions db2 = sessions db1" and c2: "accounts db2 = accounts db1"
    by blast
  from s1 s2 have s3: "sessions db2 = sessions db" by simp
  from c1 c2 have c3: "accounts db2 = accounts db" by simp
  from r1 r2 e1 a1 e2 a2 s1 c1 s3 c3 show ?thesis
    by (intro exI[of _ db1] exI[of _ db2] conjI)
qed

theorem remove_twice_witness:
  "''u1'' \<in> set (map u_id (users db0))
   \<and> remove (Connected db0) 400 ''u1''
       = Inr (db0\<lparr>users := [U1\<lparr>u_isActive := False, u_updatedAt := 400\<rparr>, U2, U3]\<rparr>)
   \<and> remove (Connected (db0\<lparr>users := [U1\<lparr>u_isActive := False, u_updatedAt := 400\<rparr>, U2, U3]\<rparr>))
         500 ''u1''
       = Inr (db0\<lparr>users := [U1\<lparr>u_isActive := False, u_updatedAt := 500\<rparr>, U2, U3]\<rparr>)
   \<and> sessions (db0\<lparr>users := [U1\<lparr>u_isActive := False, u_updatedAt := 500\<rparr>, U2, U3]\<rparr>)
       = [S1, S2]
   \<and> accounts (db0\<lparr>users := [U1\<lparr>u_isActive := False, u_updatedAt := 500\<rparr>, U2, U3]\<rparr>) = []"
proof -
  have m: "''u1'' \<in> set (map u_id (users db0))"
    by (simp add: db0_def U1_def)
  have a: "\<exists>u\<in>set (users db0). u_id u = ''u1''"
    by (simp add: db0_def U1_def)
  from remove_twice[OF a, of 400 500] obtain db1 db2 where
    r: "remove (Connected db0) 400 ''u1'' = Inr db1" "remove (Connected db1) 500 ''u1'' = Inr db2"
    and k: "sessions db2 = sessions db0" "accounts db2 = accounts db0"
    by blast
  from r(1) remove_db0
  have d1: "db1 = db0\<lparr>users := [U1\<lparr>u_isActive := False, u_updatedAt := 400\<rparr>, U2, U3]\<rparr>"
    by simp
  from r(2) remove_db0_again
  have d2: "db2 = db0\<lparr>users := [U1\<lparr>u_isActive := False, u_updatedAt := 500\<rparr>, U2, U3]\<rparr>"
    unfolding d1 by simp
  have "sessions db0 = [S1, S2]" "accounts db0 = []" by (simp_all add: db0_def)
  with k have "sessions db2 = [S1, S2]" "accounts db2 = []" by simp_all
  then have
    "sessions (db0\<lparr>users := [U1\<lparr>u_isActive := False, u_updatedAt := 500\<rparr>, U2, U3]\<rparr>) = [S1, S2]"
    "accounts (db0\<lparr>users := [U1\<lparr>u_isActive := False, u_updatedAt := 500\<rparr>, U2, U3]\<rparr>) = []"
    unfolding d2 by simp_all
  with m remove_db0 remove_db0_again show ?thesis by (intro conjI)
qed

subsection \<open>Creation\<close>

lemma create_dto_fresh:
  "create (Connected db0) 400 ''u4'' dto_fresh = Inr (db0\<lparr>users := [U1, U2, U3, U4]\<rparr>, U4)"
  by (simp add: create_def await_def prisma_user_create_def dto_fresh_def Let_def
        db0_def U1_def U2_def U3_def U4_def)

lemma create_result:
  assumes "create (Connected db) now nid createUserDto = Inr (db', row)"
  shows "users db' = users db @ [row] \<and> u_id row = nid
         \<and> u_email row = dto_email createUserDto \<and> u_name row = dto_name createUserDto
         \<and> u_emailVerified row = False \<and> u_isActive row = True"
  using assms
  by (auto simp: create_def await_def prisma_user_create_def Let_def split: if_splits)

lemma create_succeeds:
  assumes "\<forall>u\<in>set (users db). u_email u \<noteq> dto_email createUserDto"
      and "\<forall>u\<in>set (users db). u_id u \<noteq> nid"
  shows "\<exists>db2 row2. create (Connected db) now nid createUserDto = Inr (db2, row2)"
  using assms
  by (simp add: create_def await_def prisma_user_create_def list_ex_iff Let_def)

text \<open>
  C9. A row that \<open>create\<close> writes has \<open>emailVerified = false\<close> and \<open>isActive = true\<close>,
  whatever the DTO says about the two fields; the other fields are the generated id and the
  email and name of the DTO. When no row has the email of the DTO, and the generated id is
  new, \<open>create\<close> does write a row.
\<close>

theorem create_defaults:
  "(create (Connected db) now nid createUserDto = Inr (db', row) \<longrightarrow>
      users db' = users db @ [row] \<and> u_id row = nid
      \<and> u_email row = dto_email createUserDto \<and> u_name row = dto_name createUserDto
      \<and> u_emailVerified row = False \<and> u_isActive row = True)
   \<and> ((\<forall>u\<in>set (users db). u_email u \<noteq> dto_email createUserDto)
        \<and> (\<forall>u\<in>set (users db). u_id u \<noteq> nid)
       \<longrightarrow> (\<exists>db2 row2. create (Connected db) now nid createUserDto = Inr (db2, row2)))"
  using create_result create_succeeds by blast

theorem create_defaults_witness:
  "dto_emailVerified dto_fresh = Some True \<and> dto_isActive dto_fresh = Some False
   \<and> dto_email dto_fresh = ''d@x.com''
   \<and> map u_email (users db0) = [''a@x.com'', ''b@x.com'', ''c@x.com'']
   \<and> map u_id (users db0) = [''u1'', ''u2'', ''u3'']
   \<and> create (Connected db0) 400 ''u4'' dto_fresh = Inr (db0\<lparr>users := [U1, U2, U3, U4]\<rparr>, U4)
   \<and> u_emailVerified U4 = False \<and> u_isActive U4 = True"
proof -
  have dto: "dto_emailVerified dto_fresh = Some True" "dto_isActive dto_fresh = Some False"
    "dto_email dto_fresh = ''d@x.com''"
    by (simp_all add: dto_fresh_def)
  have ids: "map u_id (users db0) = [''u1'', ''u2'', ''u3'']"
    by (simp add: db0_def U1_def U2_def U3_def)
  have emails: "map u_email (users db0) = [''a@x.com'', ''b@x.com'', ''c@x.com'']"
    by (simp add: db0_def U1_def U2_def U3_def)
  have a: "\<forall>u\<in>set (users db0). u_email u \<noteq> dto_email dto_fresh"
    by (simp add: db0_def U1_def U2_def U3_def dto_fresh_def)
  have b: "\<forall>u\<in>set (users db0). u_id u \<noteq> ''u4''"
    by (simp add: db0_def U1_def U2_def U3_def)
  note t = create_defaults[of db0 400 "''u4''" dto_fresh "db0\<lparr>users := [U1, U2, U3, U4]\<rparr>" U4]
  from t a b have "\<exists>db2 row2. create (Connected db0) 400 ''u4'' dto_fresh = Inr (db2, row2)"
    by blast
  from t create_dto_fresh have "u_emailVerified U4 = False" "u_isActive U4 = True"
    by blast+
  with dto ids emails create_dto_fresh show ?thesis by (intro conjI)
qed

subsection \<open>Update\<close>

lemma update_result:
  assumes "update (Connected db) now i dto = Inr (db', row)"
  shows "db' = db\<lparr>users := map (\<lambda>v. if u_id v = i then apply_update now dto v else v)
                                (users db)\<rparr>"
  using assms
  by (auto simp: update_def await_def prisma_user_update_def Let_def
           split: option.splits if_splits)

lemma update_succeeds:
  assumes "\<exists>u\<in>set (users db). u_id u = i"
      and "\<forall>e. ui_email dto = Some e \<longrightarrow>
             (\<forall>v\<in>set (users db). u_id v \<noteq> i \<longrightarrow> u_email v \<noteq> e)"
  shows "\<exists>db2 row2. update (Connected db) now i dto = Inr (db2, row2)"
proof -
  from find_some_id[OF assms(1)] obtain u where u: "find (\<lambda>v. u_id v = i) (users db) = Some u"
    by blast
  have "\<not> (case ui_email dto of None \<Rightarrow> False
            | Some e \<Rightarrow> list_ex (\<lambda>v. u_id v \<noteq> i \<and> u_email v = e) (users db))"
    using assms(2) by (auto simp: list_ex_iff split: option.splits)
  with u show ?thesis
    by (simp add: update_def await_def prisma_user_update_def Let_def)
qed

lemma apply_update_fixed:
  "u_id (apply_update now dto v) = u_id v"
  "u_createdAt (apply_update now dto v) = u_createdAt v"
  "u_image (apply_update now dto v) = u_image v"
  by (simp_all add: apply_update_def)

lemma apply_update_name:
  "u_name (apply_update now dto v) = (case ui_name dto of None \<Rightarrow> u_name v | Some n \<Rightarrow> Some n)"
  by (cases "ui_name dto") (simp_all add: apply_update_def no_fields_def)

lemma apply_update_email:
  "u_email (apply_update now dto v) = (case ui_email dto of None \<Rightarrow> u_email v | Some e \<Rightarrow> e)"
  by (cases "ui_email dto") (simp_all add: apply_update_def no_fields_def)

lemma apply_update_emailVerified:
  "u_emailVerified (apply_update now dto v)
     = (case ui_emailVerified dto of None \<Rightarrow> u_emailVerified v | Some b \<Rightarrow> b)"
  by (cases "ui_emailVerified dto") (simp_all add: apply_update_def no_fields_def)

lemma apply_update_isActive:
  "u_isActive (apply_update now dto v)
     = (case ui_isActive dto of None \<Rightarrow> u_isActive v | Some b \<Rightarrow> b)"
  by (cases "ui_isActive dto") (simp_all add: apply_update_def no_fields_def)

lemma apply_update_frame:
  "u_id (apply_update now dto v) = u_id v
   \<and> u_createdAt (apply_update now dto v) = u_createdAt v
   \<and> u_image (apply_update now dto v) = u_image v
   \<and> (case ui_name dto of None \<Rightarrow> u_name (apply_update now dto v) = u_name v
       | Some n \<Rightarrow> u_name (apply_update now dto v) = Some n)
   \<and> (case ui_email dto of None \<Rightarrow> u_email (apply_update now dto v) = u_email v
       | Some e \<Rightarrow> u_email (apply_update now dto v) = e)
   \<and> (case ui_emailVerified dto of
         None \<Rightarrow> u_emailVerified (apply_update now dto v) = u_emailVerified v
       | Some b \<Rightarrow> u_emailVerified (apply_update now dto v) = b)
   \<and> (case ui_isActive dto of
         None \<Rightarrow> u_isActive (apply_update now dto v) = u_isActive v
       | Some b \<Rightarrow> u_isActive (apply_update now dto v) = b)"
  by (simp add: apply_update_fixed apply_update_name apply_update_email
        apply_update_emailVerified apply_update_isActive split: option.splits)

lemma update_db0:
  "update (Connected db0) 400 ''u1'' rename
     = Inr (db0\<lparr>users := [U1\<lparr>u_name := Some ''Zed'', u_updatedAt := 400\<rparr>, U2, U3]\<rparr>,
            U1\<lparr>u_name := Some ''Zed'', u_updatedAt := 400\<rparr>)"
  by (simp add: update_def await_def prisma_user_update_def apply_update_def no_fields_def
        rename_def db0_def U1_def U2_def U3_def)

text \<open>
  C10. After an update that returns, the tables of sessions and of accounts are as
  before, the user table has the same length, every row with another id is as before, and
  in the row with the given id the fields \<open>id\<close>, \<open>createdAt\<close> and \<open>image\<close> are as
  before and each of \<open>name\<close>, \<open>email\<close>, \<open>emailVerified\<close> and \<open>isActive\<close> is as before when
  the input does not hold it, and the value of the input when it does. The update returns
  when the id has a row and no other row has the email that the input sets.
\<close>

theorem update_frame:
  "(update (Connected db) now i dto = Inr (db', row) \<longrightarrow>
      sessions db' = sessions db \<and> accounts db' = accounts db
      \<and> length (users db') = length (users db)
      \<and> (\<forall>k<length (users db).
            (u_id (users db ! k) \<noteq> i \<longrightarrow> users db' ! k = users db ! k)
          \<and> (u_id (users db ! k) = i \<longrightarrow>
                u_id (users db' ! k) = i
              \<and> u_createdAt (users db' ! k) = u_createdAt (users db ! k)
              \<and> u_image (users db' ! k) = u_image (users db ! k)
              \<and> (case ui_name dto of None \<Rightarrow> u_name (users db' ! k) = u_name (users db ! k)
                  | Some n \<Rightarrow> u_name (users db' ! k) = Some n)
              \<and> (case ui_email dto of None \<Rightarrow> u_email (users db' ! k) = u_email (users db ! k)
                  | Some e \<Rightarrow> u_email (users db' ! k) = e)
              \<and> (case ui_emailVerified dto of
                    None \<Rightarrow> u_emailVerified (users db' ! k) = u_emailVerified (users db ! k)
                  | Some b \<Rightarrow> u_emailVerified (users db' ! k) = b)
              \<and> (case ui_isActive dto of
                    None \<Rightarrow> u_isActive (users db' ! k) = u_isActive (users db ! k)
                  | Some b \<Rightarrow> u_isActive (users db' ! k) = b))))
   \<and> ((\<exists>u\<in>set (users db). u_id u = i)
        \<and> (\<forall>e. ui_email dto = Some e \<longrightarrow>
              (\<forall>v\<in>set (users db). u_id v \<noteq> i \<longrightarrow> u_email v \<noteq> e))
       \<longrightarrow> (\<exists>db2 row2. update (Connected db) now i dto = Inr (db2, row2)))"
proof (intro conjI impI)
  assume "update (Connected db) now i dto = Inr (db', row)"
  from update_result[OF this]
  have db': "db' = db\<lparr>users := map (\<lambda>v. if u_id v = i then apply_update now dto v else v)
                                    (users db)\<rparr>" .
  show "sessions db' = sessions db" by (simp add: db')
  show "accounts db' = accounts db" by (simp add: db')
  show "length (users db') = length (users db)" by (simp add: db')
  show "\<forall>k<length (users db).
            (u_id (users db ! k) \<noteq> i \<longrightarrow> users db' ! k = users db ! k)
          \<and> (u_id (users db ! k) = i \<longrightarrow>
                u_id (users db' ! k) = i
              \<and> u_createdAt (users db' ! k) = u_createdAt (users db ! k)
              \<and> u_image (users db' ! k) = u_image (users db ! k)
              \<and> (case ui_name dto of None \<Rightarrow> u_name (users db' ! k) = u_name (users db ! k)
                  | Some n \<Rightarrow> u_name (users db' ! k) = Some n)
              \<and> (case ui_email dto of None \<Rightarrow> u_email (users db' ! k) = u_email (users db ! k)
                  | Some e \<Rightarrow> u_email (users db' ! k) = e)
              \<and> (case ui_emailVerified dto of
                    None \<Rightarrow> u_emailVerified (users db' ! k) = u_emailVerified (users db ! k)
                  | Some b \<Rightarrow> u_emailVerified (users db' ! k) = b)
              \<and> (case ui_isActive dto of
                    None \<Rightarrow> u_isActive (users db' ! k) = u_isActive (users db ! k)
                  | Some b \<Rightarrow> u_isActive (users db' ! k) = b))"
  proof (intro allI impI)
    fix k
    assume k: "k < length (users db)"
    let ?v = "users db ! k"
    have nth: "users db' ! k = (if u_id ?v = i then apply_update now dto ?v else ?v)"
      using k by (simp add: db')
    note f = apply_update_frame[of now dto ?v]
    show "(u_id ?v \<noteq> i \<longrightarrow> users db' ! k = ?v)
          \<and> (u_id ?v = i \<longrightarrow>
                u_id (users db' ! k) = i
              \<and> u_createdAt (users db' ! k) = u_createdAt ?v
              \<and> u_image (users db' ! k) = u_image ?v
              \<and> (case ui_name dto of None \<Rightarrow> u_name (users db' ! k) = u_name ?v
                  | Some n \<Rightarrow> u_name (users db' ! k) = Some n)
              \<and> (case ui_email dto of None \<Rightarrow> u_email (users db' ! k) = u_email ?v
                  | Some e \<Rightarrow> u_email (users db' ! k) = e)
              \<and> (case ui_emailVerified dto of
                    None \<Rightarrow> u_emailVerified (users db' ! k) = u_emailVerified ?v
                  | Some b \<Rightarrow> u_emailVerified (users db' ! k) = b)
              \<and> (case ui_isActive dto of
                    None \<Rightarrow> u_isActive (users db' ! k) = u_isActive ?v
                  | Some b \<Rightarrow> u_isActive (users db' ! k) = b))"
    proof (cases "u_id ?v = i")
      case True
      with f show ?thesis unfolding nth by simp
    next
      case False
      then show ?thesis unfolding nth by simp
    qed
  qed
next
  assume "(\<exists>u\<in>set (users db). u_id u = i)
        \<and> (\<forall>e. ui_email dto = Some e \<longrightarrow>
              (\<forall>v\<in>set (users db). u_id v \<noteq> i \<longrightarrow> u_email v \<noteq> e))"
  then show "\<exists>db2 row2. update (Connected db) now i dto = Inr (db2, row2)"
    using update_succeeds by blast
qed

theorem update_frame_witness:
  "update (Connected db0) 400 ''u1'' rename
     = Inr (db0\<lparr>users := [U1\<lparr>u_name := Some ''Zed'', u_updatedAt := 400\<rparr>, U2, U3]\<rparr>,
            U1\<lparr>u_name := Some ''Zed'', u_updatedAt := 400\<rparr>)
   \<and> ui_name rename = Some ''Zed'' \<and> ui_email rename = None
   \<and> u_name (U1\<lparr>u_name := Some ''Zed'', u_updatedAt := 400\<rparr>) = Some ''Zed''
   \<and> u_email (U1\<lparr>u_name := Some ''Zed'', u_updatedAt := 400\<rparr>) = u_email U1
   \<and> u_createdAt (U1\<lparr>u_name := Some ''Zed'', u_updatedAt := 400\<rparr>) = u_createdAt U1
   \<and> sessions (db0\<lparr>users := [U1\<lparr>u_name := Some ''Zed'', u_updatedAt := 400\<rparr>, U2, U3]\<rparr>)
       = sessions db0"
proof -
  let ?row = "U1\<lparr>u_name := Some ''Zed'', u_updatedAt := 400\<rparr>"
  let ?db' = "db0\<lparr>users := [?row, U2, U3]\<rparr>"
  note t = update_frame[of db0 400 "''u1''" rename ?db' ?row]
  from t update_db0 have s: "sessions ?db' = sessions db0"
    and k: "\<forall>k<length (users db0).
            (u_id (users db0 ! k) = ''u1'' \<longrightarrow>
                u_createdAt (users ?db' ! k) = u_createdAt (users db0 ! k)
              \<and> (case ui_name rename of None \<Rightarrow> u_name (users ?db' ! k) = u_name (users db0 ! k)
                  | Some n \<Rightarrow> u_name (users ?db' ! k) = Some n)
              \<and> (case ui_email rename of None \<Rightarrow> u_email (users ?db' ! k) = u_email (users db0 ! k)
                  | Some e \<Rightarrow> u_email (users ?db' ! k) = e))"
    by blast+
  have z: "0 < length (users db0)" "users db0 ! 0 = U1" "users ?db' ! 0 = ?row"
    "u_id U1 = ''u1''"
    by (simp_all add: db0_def U1_def)
  have r: "ui_name rename = Some ''Zed''" "ui_email rename = None"
    by (simp_all add: rename_def)
  from k z(1) have "u_id (users db0 ! 0) = ''u1'' \<longrightarrow>
                u_createdAt (users ?db' ! 0) = u_createdAt (users db0 ! 0)
              \<and> (case ui_name rename of None \<Rightarrow> u_name (users ?db' ! 0) = u_name (users db0 ! 0)
                  | Some n \<Rightarrow> u_name (users ?db' ! 0) = Some n)
              \<and> (case ui_email rename of None \<Rightarrow> u_email (users ?db' ! 0) = u_email (users db0 ! 0)
                  | Some e \<Rightarrow> u_email (users ?db' ! 0) = e)"
    by blast
  then have f: "u_createdAt ?row = u_createdAt U1" "u_name ?row = Some ''Zed''"
    "u_email ?row = u_email U1"
    unfolding z(2,3) r using z(4) by simp_all
  from update_db0 r f s show ?thesis by (intro conjI)
qed

end
